theory Spec2Isabelle
  imports Complex_Main "HOL-Library.AList"
begin

section \<open>The XVIZ stream loader (xviz-stream-loader.js)\<close>

text \<open>
  A shallow embedding of \<^verbatim>\<open>modules/core/src/loaders/xviz-stream-loader.js\<close>.

  JavaScript numbers are modelled as rationals (\<open>rat\<close>): the claims are about
  comparisons, sums, differences, \<open>Math.min\<close> and \<open>Math.max\<close>, and
  rounding of floating-point sums is not modelled.  A value that may be
  \<open>undefined\<close> or \<open>null\<close> is an \<open>option\<close>;  \<open>Number.isFinite(v)\<close>
  is \<open>v \<noteq> None\<close>, and the truthiness test of a number is \<open>truthy\<close>
  below (defined and not zero).
\<close>

subsection \<open>Data\<close>

text \<open>\<^verbatim>\<open>serverConfig\<close>, as read by \<^verbatim>\<open>getSocketRequestParams\<close>.
  \<^verbatim>\<open>worker\<close> and \<^verbatim>\<open>maxConcurrency\<close> are only handed on to the message
  parser and are left out.\<close>

record server_config =
  serverUrl :: string
  defaultLogLength :: "rat option"
  queryParams :: "(string \<times> string) list"
  cfgRetryAttempts :: "rat option"

text \<open>The \<^verbatim>\<open>options\<close> object of the constructor.\<close>

record loader_options =
  optLogGuid :: "string option"
  optLogProfile :: "string option"
  optTimestamp :: "rat option"
  optDuration :: "rat option"
  optBufferLength :: "rat option"
  optServerConfig :: server_config

text \<open>The object returned by \<^verbatim>\<open>getSocketRequestParams\<close>
  (\<^verbatim>\<open>this.requestParams\<close>).\<close>

record request_params =
  url :: string
  logGuid :: string
  logProfile :: string
  duration :: rat
  timestamp :: "rat option"
  bufferLength :: "rat option"
  retryAttempts :: int
  serverConfig :: server_config

text \<open>The object returned by \<^verbatim>\<open>updateSocketRequestParams\<close>: the spread of the
  request parameters, with \<^verbatim>\<open>timestamp\<close> and \<^verbatim>\<open>duration\<close> overwritten and
  \<^verbatim>\<open>chunkSize\<close> added.\<close>

record request = request_params +
  chunkSize :: rat

text \<open>What \<^verbatim>\<open>streamBuffer.getLoadedTimeRange()\<close> returns when it is not
  \<^verbatim>\<open>null\<close>.\<close>

record loaded_range =
  range_start :: rat
  range_end :: rat

datatype js_error = AssertionError string | TypeError string

subsection \<open>JavaScript truthiness\<close>

definition truthy :: "rat option \<Rightarrow> bool" where
  "truthy v = (case v of None \<Rightarrow> False | Some x \<Rightarrow> x \<noteq> 0)"

definition isInteger :: "rat option \<Rightarrow> bool" where
  "isInteger v = (case v of None \<Rightarrow> False | Some x \<Rightarrow> rat_of_int \<lfloor>x\<rfloor> = x)"

subsection \<open>getSocketRequestParams\<close>

definition DEFAULT_LOG_PROFILE :: string where
  "DEFAULT_LOG_PROFILE = ''default''"

definition DEFAULT_RETRY_ATTEMPTS :: int where
  "DEFAULT_RETRY_ATTEMPTS = 3"

text \<open>\<^verbatim>\<open>{...serverConfig.queryParams, log: logGuid, profile: logProfile}\<close> and the
  \<^verbatim>\<open>key=value\<close> pairs joined by \<^verbatim>\<open>&\<close>.\<close>

fun join_amp :: "string list \<Rightarrow> string" where
  "join_amp [] = []"
| "join_amp [x] = x"
| "join_amp (x # y # ys) = x @ ''&'' @ join_amp (y # ys)"

definition query_string :: "(string \<times> string) list \<Rightarrow> string" where
  "query_string qp = join_amp (map (\<lambda>(k, v). k @ ''='' @ v) qp)"

definition getSocketRequestParams :: "loader_options \<Rightarrow> js_error + request_params" where
  "getSocketRequestParams options =
    (let cfg = optServerConfig options;
         lp = (case optLogProfile options of None \<Rightarrow> DEFAULT_LOG_PROFILE | Some p \<Rightarrow> p);
         dur = (if truthy (optDuration options) then optDuration options
                else defaultLogLength cfg)
     in case optLogGuid options of
          None \<Rightarrow> Inl (AssertionError [])
        | Some guid \<Rightarrow>
            if guid = [] \<or> \<not> truthy dur then Inl (AssertionError [])
            else
              let qp = AList.update ''profile'' lp
                         (AList.update ''log'' guid (queryParams cfg));
                  ra = (if isInteger (cfgRetryAttempts cfg)
                        then \<lfloor>the (cfgRetryAttempts cfg)\<rfloor>
                        else DEFAULT_RETRY_ATTEMPTS)
              in Inr \<lparr>url = serverUrl cfg @ ''?'' @ query_string qp,
                      logGuid = guid,
                      logProfile = lp,
                      duration = the dur,
                      timestamp = optTimestamp options,
                      bufferLength = optBufferLength options,
                      retryAttempts = ra,
                      serverConfig = cfg\<rparr>)"

subsection \<open>The collaborators the loader is given\<close>

text \<open>
  \<^verbatim>\<open>XvizStreamBuffer\<close> and \<^verbatim>\<open>getXvizSettings\<close> come from the package
  \<^verbatim>\<open>@xviz/parser\<close>; the base class \<^verbatim>\<open>XVIZLoaderInterface\<close> clamps the
  timestamp of a seek.  They are parameters of the model: the buffer is a value of
  an arbitrary type \<open>'b\<close> together with the operations the loader calls on it,
  its version token (\<^verbatim>\<open>valueOf()\<close>) a natural number compared for equality
  only.
\<close>

datatype msg_type = METADATA | TIMESLICE | DONE | OTHER

datatype 'p message =
  Message (mtype: msg_type) (start_time: "rat option") (payload: 'p)

record ('b, 'p, 's) env =
  TIME_WINDOW :: rat
  clampTime :: "rat \<Rightarrow> rat"
  newBuffer :: "(rat \<times> rat) option \<Rightarrow> 'b"
  valueOf :: "'b \<Rightarrow> nat"
  setCurrentTime :: "rat \<Rightarrow> 'b \<Rightarrow> 'b"
  insert_buf :: "'p message \<Rightarrow> 'b \<Rightarrow> 'b"
  getLoadedTimeRange :: "'b \<Rightarrow> loaded_range option"
  getStreams :: "'b \<Rightarrow> 's"

subsection \<open>updateSocketRequestParams\<close>

text \<open>\<^verbatim>\<open>{...initalRequestParams, chunkSize}\<close>.\<close>

definition spread :: "request_params \<Rightarrow> rat \<Rightarrow> request" where
  "spread p c =
     \<lparr>url = url p, logGuid = logGuid p, logProfile = logProfile p,
      duration = duration p, timestamp = timestamp p, bufferLength = bufferLength p,
      retryAttempts = retryAttempts p, serverConfig = serverConfig p,
      chunkSize = c\<rparr>"

definition updateSocketRequestParams ::
  "('b, 'p, 's) env \<Rightarrow> rat option \<Rightarrow> request_params \<Rightarrow> 'b \<Rightarrow> request" where
  "updateSocketRequestParams e ts initalRequestParams streamBuffer =
    (let totalDuration = duration initalRequestParams;
         initialTimestamp = timestamp initalRequestParams;
         bl = bufferLength initalRequestParams;
         cs = (if truthy bl then min totalDuration (the bl + TIME_WINDOW e)
               else totalDuration)
     in if ts = None \<and> initialTimestamp = None
        then (spread initalRequestParams cs)\<lparr>duration := cs\<rparr>
        else
          let loadedRange = getLoadedTimeRange e streamBuffer;
              start = (case ts of Some t \<Rightarrow> t | None \<Rightarrow> the initialTimestamp);
              end0 = start + cs;
              end1 = (case loadedRange of
                        None \<Rightarrow> end0
                      | Some lr \<Rightarrow>
                          if range_start lr \<le> start \<and> range_end lr > start
                          then start
                          else if range_start lr < end0 \<and> range_end lr \<ge> end0
                          then range_start lr
                          else end0);
              clamp = (totalDuration \<noteq> 0 \<and> truthy initialTimestamp);
              start2 = (if clamp then max start (the initialTimestamp) else start);
              end2 = (if clamp then min end1 (the initialTimestamp + totalDuration)
                      else end1)
          in (spread initalRequestParams cs)
               \<lparr>timestamp := Some start2, duration := max 0 (end2 - start2)\<rparr>)"

subsection \<open>The loader's state and its observable effects\<close>

type_synonym socket = nat

text \<open>The requests sent through \<^verbatim>\<open>this.xvizHandler\<close> (an
  \<^verbatim>\<open>XVIZController\<close>): \<^verbatim>\<open>open(requestParams)\<close>, \<^verbatim>\<open>play(params)\<close> and
  \<^verbatim>\<open>metadata()\<close>.\<close>

datatype directive = OpenLog request_params | Play request | MetadataRequest

text \<open>What the promise of a connection attempt is rejected with: the close event
  of the socket (with its code), or the exception thrown by the socket's
  constructor (which has no \<^verbatim>\<open>code\<close>).\<close>

datatype failure = CloseEvent int | Exception string

fun code :: "failure \<Rightarrow> int option" where
  "code (CloseEvent c) = Some c"
| "code (Exception x) = None"

text \<open>The argument of an \<^verbatim>\<open>error\<close> event: the failure of a connection attempt,
  the error event of the socket, a parse error, an unexpected message, or
  \<^verbatim>\<open>undefined\<close> (the rejection of the retry loop).\<close>

datatype 'p error_payload =
  ErrFailure failure | ErrSocket | ErrParse | ErrMessage "'p message" | ErrUndefined

datatype 'p event =
  Ready "'p message" | Update "'p message" | Finish "'p message" | Error "'p error_payload"

text \<open>Everything the loader does to the outside, in the order it does it.\<close>

datatype ('p, 's) effect =
    Emit "'p event"
  | Send socket directive
  | SocketClose socket
  | NewSocket string
  | SetStreams 's
  | NewSynchronizer "rat option"
  | Debug string
  | Uncaught js_error

text \<open>The \<^verbatim>\<open>StreamSynchronizer\<close> (of \<^verbatim>\<open>@xviz/parser\<close>), as far as the loader
  touches it: its start time and its cache \<^verbatim>\<open>_streamsByReverseTime\<close>, which the
  synchronizer fills by itself when it is queried.  The buffer it is constructed
  with is the loader's own \<^verbatim>\<open>streamBuffer\<close>.\<close>

record 's synchronizer =
  sync_startTime :: "rat option"
  streamsByReverseTime :: "'s option"

record retry_settings =
  retries :: int
  minTimeout :: nat
  randomize :: bool

text \<open>The fields of the loader.  \<^verbatim>\<open>currentTime\<close>, \<^verbatim>\<open>metadata\<close>,
  \<^verbatim>\<open>streams\<close> and \<^verbatim>\<open>logSynchronizer\<close> are the keys \<^verbatim>\<open>timestamp\<close>,
  \<^verbatim>\<open>metadata\<close>, \<^verbatim>\<open>streams\<close> and \<^verbatim>\<open>logSynchronizer\<close> of the state that
  the base class keeps behind \<^verbatim>\<open>get\<close> and \<^verbatim>\<open>set\<close>.\<close>

record ('b, 'p, 's) loader =
  socket :: "socket option"
  requestParams :: request_params
  lastRequest :: "request option"
  retrySettings :: retry_settings
  streamBuffer :: 'b
  xvizHandler :: "socket option"
  currentTime :: "rat option"
  metadata :: "'p message option"
  streams :: "'s option"
  logSynchronizer :: "'s synchronizer option"
  trace :: "('p, 's) effect list"

text \<open>A call either returns or throws; a throw keeps the state as it is at the
  throw.\<close>

datatype 'a outcome = Returned 'a | Thrown js_error 'a

fun state_of :: "'a outcome \<Rightarrow> 'a" where
  "state_of (Returned s) = s"
| "state_of (Thrown x s) = s"

definition effect :: "('p, 's) effect \<Rightarrow> ('b, 'p, 's) loader \<Rightarrow> ('b, 'p, 's) loader" where
  "effect x s = s\<lparr>trace := trace s @ [x]\<rparr>"

definition emit :: "'p event \<Rightarrow> ('b, 'p, 's) loader \<Rightarrow> ('b, 'p, 's) loader" where
  "emit ev s = effect (Emit ev) s"

text \<open>\<^verbatim>\<open>this.set('streams', v)\<close>.\<close>

definition set_streams :: "'s \<Rightarrow> ('b, 'p, 's) loader \<Rightarrow> ('b, 'p, 's) loader" where
  "set_streams v s = effect (SetStreams v) (s\<lparr>streams := Some v\<rparr>)"

text \<open>Modelled from the spec: \<^verbatim>\<open>XVIZLoaderInterface._setMetadata\<close>, which is not
  in the source file (``publish metadata''; afterwards \<^verbatim>\<open>get('metadata')\<close> is
  the message).\<close>

definition setMetadata :: "'p message \<Rightarrow> ('b, 'p, 's) loader \<Rightarrow> ('b, 'p, 's) loader" where
  "setMetadata m s = s\<lparr>metadata := Some m\<rparr>"

text \<open>Modelled from the spec: \<^verbatim>\<open>XVIZLoaderInterface.seek\<close> followed by
  \<^verbatim>\<open>getCurrentTime()\<close>, which are not in the source file (``clamps/rounds the
  timestamp via the base playback contract'').\<close>

definition super_seek ::
  "('b, 'p, 's) env \<Rightarrow> rat \<Rightarrow> ('b, 'p, 's) loader \<Rightarrow> ('b, 'p, 's) loader" where
  "super_seek e t s = s\<lparr>currentTime := Some (clampTime e t)\<rparr>"

text \<open>A call of a method of \<^verbatim>\<open>this.xvizHandler\<close>; it is a \<^verbatim>\<open>TypeError\<close> when
  no handler has been created yet.\<close>

definition handler_send ::
  "directive \<Rightarrow> ('b, 'p, 's) loader \<Rightarrow> ('b, 'p, 's) loader outcome" where
  "handler_send d s =
     (case xvizHandler s of
        None \<Rightarrow> Thrown (TypeError ''xvizHandler'') s
      | Some ws \<Rightarrow> Returned (effect (Send ws d) s))"

subsection \<open>The constructor\<close>

definition constructor ::
  "('b, 'p, 's) env \<Rightarrow> loader_options \<Rightarrow> js_error + ('b, 'p, 's) loader" where
  "constructor e options =
     (case getSocketRequestParams options of
        Inl x \<Rightarrow> Inl x
      | Inr rp \<Rightarrow>
          Inr \<lparr>socket = None,
               requestParams = rp,
               lastRequest = None,
               retrySettings = \<lparr>retries = retryAttempts rp, minTimeout = 500,
                                randomize = True\<rparr>,
               streamBuffer =
                 (if truthy (bufferLength rp) \<and> the (bufferLength rp) < duration rp
                  then newBuffer e (Some (- the (bufferLength rp), the (bufferLength rp)))
                  else newBuffer e None),
               xvizHandler = None,
               currentTime = None,
               metadata = None,
               streams = None,
               logSynchronizer = None,
               trace = []\<rparr>)"

subsection \<open>isOpen, close, and the synchronous part of connect\<close>

definition isOpen :: "('b, 'p, 's) loader \<Rightarrow> bool" where
  "isOpen s = (socket s \<noteq> None)"

definition close :: "('b, 'p, 's) loader \<Rightarrow> ('b, 'p, 's) loader" where
  "close s =
     (case socket s of
        Some ws \<Rightarrow> (effect (SocketClose ws) s)\<lparr>socket := None\<rparr>
      | None \<Rightarrow> s)"

text \<open>\<^verbatim>\<open>connect()\<close> up to the call of \<^verbatim>\<open>PromiseRetry\<close>: the assertion and the
  probe \<^verbatim>\<open>stream_start\<close>.  The connection attempts themselves run after the
  caller has returned (see \<open>connect\<close> below).\<close>

definition connect_start :: "('b, 'p, 's) loader \<Rightarrow> ('b, 'p, 's) loader outcome" where
  "connect_start s =
     (if socket s \<noteq> None then Thrown (AssertionError ''Socket Manager still connected'') s
      else Returned (effect (Debug ''stream_start'') s))"

subsection \<open>seek\<close>

text \<open>The block ``prune buffer'' of \<^verbatim>\<open>seek\<close> (lines 202 to 207).\<close>

definition prune_buffer ::
  "('b, 'p, 's) env \<Rightarrow> rat \<Rightarrow> ('b, 'p, 's) loader \<Rightarrow> ('b, 'p, 's) loader" where
  "prune_buffer e ts s =
     (let oldVersion = valueOf e (streamBuffer s);
          s1 = s\<lparr>streamBuffer := setCurrentTime e ts (streamBuffer s)\<rparr>
      in if valueOf e (streamBuffer s1) \<noteq> oldVersion
         then set_streams (getStreams e (streamBuffer s1)) s1
         else s1)"

definition seek ::
  "('b, 'p, 's) env \<Rightarrow> rat \<Rightarrow> ('b, 'p, 's) loader \<Rightarrow> ('b, 'p, 's) loader outcome" where
  "seek e t s =
    (let s0 = super_seek e t s;
         ts = the (currentTime s0);
         bufferStartTime = ts - TIME_WINDOW e;
         s2 = prune_buffer e ts s0
     in case lastRequest s2 of
          None \<Rightarrow> Returned s2
        | Some lr \<Rightarrow>
            if (case timestamp lr of
                  None \<Rightarrow> False
                | Some lastRequestedTimestamp \<Rightarrow>
                    bufferStartTime \<ge> lastRequestedTimestamp \<and>
                    ts \<le> lastRequestedTimestamp + chunkSize lr)
            then Returned s2
            else
              let cancelPrevious = False;
                  params = updateSocketRequestParams e (Some bufferStartTime)
                             (requestParams s2) (streamBuffer s2)
              in if duration params = 0 then Returned s2
                 else
                   let s3 = s2\<lparr>lastRequest := Some (params\<lparr>timestamp := Some bufferStartTime\<rparr>)\<rparr>
                   in if isOpen s3 \<and> \<not> cancelPrevious
                      then handler_send (Play params) s3
                      else connect_start (close s3))"

subsection \<open>The handlers of the socket's events\<close>

definition onWSOpen :: "('b, 'p, 's) loader \<Rightarrow> ('b, 'p, 's) loader outcome" where
  "onWSOpen s =
     (let s1 = s\<lparr>xvizHandler := socket s\<rparr>
      in case handler_send (OpenLog (requestParams s1)) s1 of
           Thrown x s2 \<Rightarrow> Thrown x s2
         | Returned s2 \<Rightarrow>
             let s3 = effect (Debug ''socket_open'') s2
             in case lastRequest s3 of
                  Some lr \<Rightarrow> handler_send (Play lr) s3
                | None \<Rightarrow> handler_send MetadataRequest s3)"

definition onWSError :: "'p error_payload \<Rightarrow> ('b, 'p, 's) loader \<Rightarrow> ('b, 'p, 's) loader" where
  "onWSError x s = emit (Error x) s"

definition onWSClose :: "int \<Rightarrow> ('b, 'p, 's) loader \<Rightarrow> ('b, 'p, 's) loader" where
  "onWSClose c s = effect (Debug ''socket_closed'') s"

definition onWSMessage ::
  "('b, 'p, 's) env \<Rightarrow> 'p message \<Rightarrow> ('b, 'p, 's) loader \<Rightarrow> ('b, 'p, 's) loader outcome" where
  "onWSMessage e message s =
    (case mtype message of
       METADATA \<Rightarrow>
         if metadata s \<noteq> None then Returned s
         else
           let s1 = effect (NewSynchronizer (start_time message))
                      (s\<lparr>logSynchronizer :=
                           Some \<lparr>sync_startTime = start_time message,
                                 streamsByReverseTime = None\<rparr>\<rparr>);
               params = updateSocketRequestParams e (start_time message)
                          (requestParams s1) (streamBuffer s1);
               s2 = s1\<lparr>lastRequest := Some params\<rparr>
           in (case handler_send (Play params) s2 of
                 Thrown x s3 \<Rightarrow> Thrown x s3
               | Returned s3 \<Rightarrow> Returned (emit (Ready message) (setMetadata message s3)))
     | TIMESLICE \<Rightarrow>
         let oldVersion = valueOf e (streamBuffer s);
             s1 = s\<lparr>streamBuffer := insert_buf e message (streamBuffer s)\<rparr>
         in if valueOf e (streamBuffer s1) \<noteq> oldVersion
            then
              let s2 = set_streams (getStreams e (streamBuffer s1)) s1
              in (case logSynchronizer s2 of
                    None \<Rightarrow> Thrown (TypeError ''logSynchronizer'') s2
                  | Some sy \<Rightarrow>
                      Returned (emit (Update message)
                        (s2\<lparr>logSynchronizer := Some (sy\<lparr>streamsByReverseTime := None\<rparr>)\<rparr>)))
            else Returned (emit (Update message) s1)
     | DONE \<Rightarrow> Returned (emit (Finish message) s)
     | OTHER \<Rightarrow> Returned (emit (Error (ErrMessage message)) s))"

text \<open>A handler called by the runtime: an exception it throws is not caught by
  the loader, and the state stays as the handler left it.\<close>

definition run_handler :: "('b, 'p, 's) loader outcome \<Rightarrow> ('b, 'p, 's) loader" where
  "run_handler r = (case r of Returned s \<Rightarrow> s | Thrown x s \<Rightarrow> effect (Uncaught x) s)"

text \<open>The messages of a connection, dispatched in their order of arrival.\<close>

fun dispatch_all ::
  "('b, 'p, 's) env \<Rightarrow> 'p message list \<Rightarrow> ('b, 'p, 's) loader \<Rightarrow> ('b, 'p, 's) loader" where
  "dispatch_all e [] s = s"
| "dispatch_all e (m # ms) s = dispatch_all e ms (run_handler (onWSMessage e m s))"

subsection \<open>connect: the connection attempts and their retry\<close>

text \<open>How one attempt of the retry loop ends, as \<^verbatim>\<open>PromiseRetry\<close> sees it: the
  promise of the attempt is fulfilled, or \<^verbatim>\<open>retry()\<close> was called in its
  \<^verbatim>\<open>catch\<close> handler, or it is not settled (yet).\<close>

datatype attempt_result = Fulfilled | RetryRequested | Unsettled

text \<open>The events a socket delivers to the handlers that \<^verbatim>\<open>connect\<close> installs.
  A message comes with the result of \<^verbatim>\<open>parseStreamMessage\<close>: the parsed message
  (\<^verbatim>\<open>onResult\<close>) or none (\<^verbatim>\<open>onError\<close>).\<close>

datatype 'p ws_event = EvOpen | EvMessage "'p message option" | EvError | EvClose int

text \<open>What the transport does at one attempt: its constructor throws, or it gives
  a socket and then delivers events.\<close>

datatype 'p attempt_behaviour = ConstructorThrows string | Socket socket "'p ws_event list"

definition isAbnormalClosure :: "failure \<Rightarrow> bool" where
  "isAbnormalClosure ev = (case code ev of None \<Rightarrow> False | Some c \<Rightarrow> c > 1000 \<and> c \<noteq> 1005)"

text \<open>The \<^verbatim>\<open>catch\<close> handler of an attempt's promise (lines 289 to 297).\<close>

definition connect_catch ::
  "failure \<Rightarrow> ('b, 'p, 's) loader \<Rightarrow> attempt_result \<times> ('b, 'p, 's) loader" where
  "connect_catch ev s =
     (let s1 = onWSError (ErrFailure ev) s
      in if isAbnormalClosure ev \<or> socket s1 = None then (RetryRequested, s1)
         else (Fulfilled, s1))"

text \<open>The handlers \<^verbatim>\<open>ws.onopen\<close>, \<^verbatim>\<open>ws.onclose\<close>, \<^verbatim>\<open>ws.onmessage\<close> and
  \<^verbatim>\<open>ws.onerror\<close>.  They carry the state of the attempt's promise: a promise
  is settled once, so \<^verbatim>\<open>resolve\<close> and \<^verbatim>\<open>reject\<close> do nothing on a settled
  promise, and the \<^verbatim>\<open>catch\<close> handler runs only when \<^verbatim>\<open>reject\<close> settles
  it.\<close>

definition ws_onopen ::
  "socket \<Rightarrow> attempt_result \<times> ('b, 'p, 's) loader \<Rightarrow> attempt_result \<times> ('b, 'p, 's) loader" where
  "ws_onopen ws = (\<lambda>(r, s).
     case onWSOpen (s\<lparr>socket := Some ws\<rparr>) of
       Returned s1 \<Rightarrow> (if r = Unsettled then Fulfilled else r, s1)
     | Thrown x s1 \<Rightarrow> (r, effect (Uncaught x) s1))"

definition ws_onclose ::
  "int \<Rightarrow> attempt_result \<times> ('b, 'p, 's) loader \<Rightarrow> attempt_result \<times> ('b, 'p, 's) loader" where
  "ws_onclose c = (\<lambda>(r, s).
     let s1 = onWSClose c s
     in if r = Unsettled then connect_catch (CloseEvent c) s1 else (r, s1))"

definition ws_onmessage ::
  "('b, 'p, 's) env \<Rightarrow> 'p message option \<Rightarrow> attempt_result \<times> ('b, 'p, 's) loader
     \<Rightarrow> attempt_result \<times> ('b, 'p, 's) loader" where
  "ws_onmessage e pm = (\<lambda>(r, s).
     case pm of
       Some m \<Rightarrow> (r, run_handler (onWSMessage e m s))
     | None \<Rightarrow> (r, onWSError ErrParse s))"

definition ws_onerror ::
  "attempt_result \<times> ('b, 'p, 's) loader \<Rightarrow> attempt_result \<times> ('b, 'p, 's) loader" where
  "ws_onerror = (\<lambda>(r, s). (r, onWSError ErrSocket s))"

fun ws_deliver ::
  "('b, 'p, 's) env \<Rightarrow> socket \<Rightarrow> 'p ws_event \<Rightarrow> attempt_result \<times> ('b, 'p, 's) loader
     \<Rightarrow> attempt_result \<times> ('b, 'p, 's) loader" where
  "ws_deliver e ws EvOpen rs = ws_onopen ws rs"
| "ws_deliver e ws (EvMessage pm) rs = ws_onmessage e pm rs"
| "ws_deliver e ws EvError rs = ws_onerror rs"
| "ws_deliver e ws (EvClose c) rs = ws_onclose c rs"

fun ws_events ::
  "('b, 'p, 's) env \<Rightarrow> socket \<Rightarrow> 'p ws_event list \<Rightarrow> attempt_result \<times> ('b, 'p, 's) loader
     \<Rightarrow> attempt_result \<times> ('b, 'p, 's) loader" where
  "ws_events e ws [] rs = rs"
| "ws_events e ws (ev # evs) rs = ws_events e ws evs (ws_deliver e ws ev rs)"

text \<open>The function handed to \<^verbatim>\<open>PromiseRetry\<close> (lines 257 to 297), for the
  attempt number \<open>n\<close>.\<close>

definition connect_attempt ::
  "('b, 'p, 's) env \<Rightarrow> (nat \<Rightarrow> 'p attempt_behaviour) \<Rightarrow> nat \<Rightarrow> ('b, 'p, 's) loader
     \<Rightarrow> attempt_result \<times> ('b, 'p, 's) loader" where
  "connect_attempt e transport n s =
     (let s0 = effect (NewSocket (url (requestParams s))) s
      in case transport n of
           ConstructorThrows x \<Rightarrow> connect_catch (Exception x) s0
         | Socket ws evs \<Rightarrow> ws_events e ws evs (Unsettled, s0))"

datatype retry_result = RetryResolved | RetryRejected | RetryPending

text \<open>Modelled from the spec: \<^verbatim>\<open>PromiseRetry\<close> (the package
  \<^verbatim>\<open>promise-retry\<close>), which is not in the source file (``Retries use a capped
  count''; ``exhausting retries surfaces a terminal error event'').  The first
  attempt is followed by at most \<open>k\<close> more, each one made when the one before
  asked for a retry; when an attempt asks for a retry and none is left, the
  promise of the loop is rejected.  Delays are not modelled.\<close>

fun PromiseRetry ::
  "(nat \<Rightarrow> 'st \<Rightarrow> attempt_result \<times> 'st) \<Rightarrow> nat \<Rightarrow> nat \<Rightarrow> 'st \<Rightarrow> retry_result \<times> 'st" where
  "PromiseRetry fn 0 n s =
     (case fn n s of
        (Fulfilled, s1) \<Rightarrow> (RetryResolved, s1)
      | (RetryRequested, s1) \<Rightarrow> (RetryRejected, s1)
      | (Unsettled, s1) \<Rightarrow> (RetryPending, s1))"
| "PromiseRetry fn (Suc k) n s =
     (case fn n s of
        (Fulfilled, s1) \<Rightarrow> (RetryResolved, s1)
      | (RetryRequested, s1) \<Rightarrow> PromiseRetry fn k (Suc n) s1
      | (Unsettled, s1) \<Rightarrow> (RetryPending, s1))"

text \<open>\<^verbatim>\<open>connect()\<close> with the attempts it starts, against a transport that behaves
  as \<open>transport n\<close> at the attempt number \<open>n\<close> (counted from 1).\<close>

definition connect ::
  "('b, 'p, 's) env \<Rightarrow> (nat \<Rightarrow> 'p attempt_behaviour) \<Rightarrow> ('b, 'p, 's) loader
     \<Rightarrow> ('b, 'p, 's) loader outcome" where
  "connect e transport s =
     (case connect_start s of
        Thrown x s1 \<Rightarrow> Thrown x s1
      | Returned s1 \<Rightarrow>
          (case PromiseRetry (connect_attempt e transport)
                  (nat (retries (retrySettings s1))) 1 s1 of
             (RetryRejected, s2) \<Rightarrow> Returned (onWSError ErrUndefined s2)
           | (r, s2) \<Rightarrow> Returned s2))"

subsection \<open>A small buffer to run the loader on\<close>

text \<open>A stand-in for \<^verbatim>\<open>XvizStreamBuffer\<close>: it keeps the time range it has
  loaded, a version that every change bumps, and optionally a window of offsets
  around the current time outside of which it drops data and refuses
  timeslices.  The payload of a timeslice is its time.\<close>

record sample_buffer =
  sb_version :: nat
  sb_range :: "loaded_range option"
  sb_offsets :: "(rat \<times> rat) option"
  sb_now :: "rat option"

definition sample_insert :: "rat message \<Rightarrow> sample_buffer \<Rightarrow> sample_buffer" where
  "sample_insert m b =
     (let t = payload m
      in if (case (sb_offsets b, sb_now b) of
               (Some (lo, hi), Some now) \<Rightarrow> t < now + lo \<or> now + hi < t
             | _ \<Rightarrow> False)
         then b
         else b\<lparr>sb_version := Suc (sb_version b),
                sb_range := Some (case sb_range b of
                    None \<Rightarrow> \<lparr>range_start = t, range_end = t\<rparr>
                  | Some r \<Rightarrow> \<lparr>range_start = min (range_start r) t,
                               range_end = max (range_end r) t\<rparr>)\<rparr>)"

definition sample_setCurrentTime :: "rat \<Rightarrow> sample_buffer \<Rightarrow> sample_buffer" where
  "sample_setCurrentTime t b =
     (let b1 = b\<lparr>sb_now := Some t\<rparr>
      in case (sb_offsets b, sb_range b) of
           (Some (lo, hi), Some r) \<Rightarrow>
             let lo1 = max (range_start r) (t + lo);
                 hi1 = min (range_end r) (t + hi)
             in if lo1 = range_start r \<and> hi1 = range_end r then b1
                else b1\<lparr>sb_version := Suc (sb_version b),
                        sb_range := (if lo1 \<le> hi1
                                     then Some \<lparr>range_start = lo1, range_end = hi1\<rparr>
                                     else None)\<rparr>
         | _ \<Rightarrow> b1)"

definition sample_env :: "rat \<Rightarrow> (sample_buffer, rat, loaded_range option) env" where
  "sample_env tw =
     \<lparr>TIME_WINDOW = tw,
      clampTime = (\<lambda>t. t),
      newBuffer = (\<lambda>off. \<lparr>sb_version = 0, sb_range = None, sb_offsets = off,
                            sb_now = None\<rparr>),
      valueOf = sb_version,
      setCurrentTime = sample_setCurrentTime,
      insert_buf = sample_insert,
      getLoadedTimeRange = sb_range,
      getStreams = sb_range\<rparr>"

text \<open>The options of the examples: a log of 30 seconds, a buffer length of 10, and
  optionally a start timestamp.\<close>

definition sample_options :: "rat option \<Rightarrow> loader_options" where
  "sample_options t0 =
     \<lparr>optLogGuid = Some ''log'',
      optLogProfile = None,
      optTimestamp = t0,
      optDuration = Some 30,
      optBufferLength = Some 10,
      optServerConfig = \<lparr>serverUrl = ''ws://localhost:8081'', defaultLogLength = None,
                         queryParams = [], cfgRetryAttempts = None\<rparr>\<rparr>"

definition sample_params :: "rat option \<Rightarrow> request_params" where
  "sample_params t0 =
     \<lparr>url = ''ws://localhost:8081?log=log&profile=default'',
      logGuid = ''log'',
      logProfile = ''default'',
      duration = 30,
      timestamp = t0,
      bufferLength = Some 10,
      retryAttempts = 3,
      serverConfig = \<lparr>serverUrl = ''ws://localhost:8081'', defaultLogLength = None,
                       queryParams = [], cfgRetryAttempts = None\<rparr>\<rparr>"

definition sample_loaded :: "rat \<Rightarrow> rat \<Rightarrow> sample_buffer" where
  "sample_loaded a b =
     \<lparr>sb_version = 1, sb_range = Some \<lparr>range_start = a, range_end = b\<rparr>,
      sb_offsets = None, sb_now = None\<rparr>"

text \<open>A session on the small buffer: the loader is constructed, connects at the
  first attempt, and receives the metadata of a log that starts at 100.\<close>

definition sample_fresh :: "rat \<Rightarrow> rat option \<Rightarrow> (sample_buffer, rat, loaded_range option) loader" where
  "sample_fresh tw t0 = projr (constructor (sample_env tw) (sample_options t0))"

definition sample_metadata :: "rat message" where
  "sample_metadata = Message METADATA (Some 100) 0"

definition sample_session :: "(sample_buffer, rat, loaded_range option) loader" where
  "sample_session =
     state_of (connect (sample_env 2)
       (\<lambda>n. Socket n [EvOpen, EvMessage (Some sample_metadata)])
       (sample_fresh 2 None))"

definition sample_opened :: "(sample_buffer, rat, loaded_range option) loader" where
  "sample_opened =
     state_of (connect (sample_env 2) (\<lambda>n. Socket n [EvOpen]) (sample_fresh 2 None))"

text \<open>The request that the session above plays for the window starting at \<open>t\<close>.\<close>

definition sample_play :: "rat \<Rightarrow> request" where
  "sample_play t = (spread (sample_params None) 12)\<lparr>timestamp := Some t, duration := 12\<rparr>"

definition sample_slice :: "rat \<Rightarrow> rat message" where
  "sample_slice t = Message TIMESLICE None t"

text \<open>The session after the timeslices at 100 and 125 have arrived; the same two
  timeslices arriving before the metadata; and the session after a seek to 105, with
  the synchronizer's cache filled by a query.\<close>

definition sample_loaded_session :: "(sample_buffer, rat, loaded_range option) loader" where
  "sample_loaded_session =
     dispatch_all (sample_env 2) [sample_slice 100, sample_slice 125] sample_session"

definition sample_early :: "(sample_buffer, rat, loaded_range option) loader" where
  "sample_early =
     dispatch_all (sample_env 2) [sample_slice 100, sample_slice 125] sample_opened"

definition sample_cache :: "loaded_range option synchronizer" where
  "sample_cache =
     \<lparr>sync_startTime = Some 100,
      streamsByReverseTime = Some (Some \<lparr>range_start = 100, range_end = 115\<rparr>)\<rparr>"

definition sample_cached :: "(sample_buffer, rat, loaded_range option) loader" where
  "sample_cached =
     (state_of (seek (sample_env 2) 105 sample_loaded_session))
       \<lparr>logSynchronizer := Some sample_cache\<rparr>"

subsection \<open>Observations on the trace\<close>

fun is_ready :: "('p, 's) effect \<Rightarrow> bool" where
  "is_ready (Emit (Ready m)) = True"
| "is_ready x = False"

fun is_sync_init :: "('p, 's) effect \<Rightarrow> bool" where
  "is_sync_init (NewSynchronizer t) = True"
| "is_sync_init x = False"

section \<open>Basic facts\<close>

lemma spread_simps [simp]:
  "url (spread p c) = url p" "logGuid (spread p c) = logGuid p"
  "logProfile (spread p c) = logProfile p" "duration (spread p c) = duration p"
  "timestamp (spread p c) = timestamp p" "bufferLength (spread p c) = bufferLength p"
  "retryAttempts (spread p c) = retryAttempts p" "serverConfig (spread p c) = serverConfig p"
  "chunkSize (spread p c) = c"
  by (simp_all add: spread_def)

lemma effect_simps [simp]:
  "trace (effect x s) = trace s @ [x]"
  "socket (effect x s) = socket s"
  "lastRequest (effect x s) = lastRequest s"
  "requestParams (effect x s) = requestParams s"
  "retrySettings (effect x s) = retrySettings s"
  "streamBuffer (effect x s) = streamBuffer s"
  "xvizHandler (effect x s) = xvizHandler s"
  "currentTime (effect x s) = currentTime s"
  "metadata (effect x s) = metadata s"
  "streams (effect x s) = streams s"
  "logSynchronizer (effect x s) = logSynchronizer s"
  by (simp_all add: effect_def)

lemma prune_buffer_simps [simp]:
  "socket (prune_buffer e c s) = socket s"
  "lastRequest (prune_buffer e c s) = lastRequest s"
  "requestParams (prune_buffer e c s) = requestParams s"
  "retrySettings (prune_buffer e c s) = retrySettings s"
  "streamBuffer (prune_buffer e c s) = setCurrentTime e c (streamBuffer s)"
  "xvizHandler (prune_buffer e c s) = xvizHandler s"
  "currentTime (prune_buffer e c s) = currentTime s"
  "metadata (prune_buffer e c s) = metadata s"
  "logSynchronizer (prune_buffer e c s) = logSynchronizer s"
  by (simp_all add: prune_buffer_def set_streams_def Let_def)

lemma prune_buffer_trace:
  "trace (prune_buffer e c s) =
     trace s @ (if valueOf e (setCurrentTime e c (streamBuffer s)) \<noteq> valueOf e (streamBuffer s)
                then [SetStreams (getStreams e (setCurrentTime e c (streamBuffer s)))] else [])"
  by (simp add: prune_buffer_def set_streams_def Let_def)

lemma super_seek_simps [simp]:
  "socket (super_seek e t s) = socket s"
  "lastRequest (super_seek e t s) = lastRequest s"
  "requestParams (super_seek e t s) = requestParams s"
  "retrySettings (super_seek e t s) = retrySettings s"
  "streamBuffer (super_seek e t s) = streamBuffer s"
  "xvizHandler (super_seek e t s) = xvizHandler s"
  "currentTime (super_seek e t s) = Some (clampTime e t)"
  "metadata (super_seek e t s) = metadata s"
  "streams (super_seek e t s) = streams s"
  "logSynchronizer (super_seek e t s) = logSynchronizer s"
  "trace (super_seek e t s) = trace s"
  by (simp_all add: super_seek_def)

text \<open>The options of the examples give the request parameters of the examples.\<close>

lemma sample_params_eq: "getSocketRequestParams (sample_options t0) = Inr (sample_params t0)"
  by (simp add: getSocketRequestParams_def sample_options_def sample_params_def truthy_def
      isInteger_def DEFAULT_LOG_PROFILE_def DEFAULT_RETRY_ATTEMPTS_def query_string_def Let_def)

lemma upd_timestamp:
  "timestamp (updateSocketRequestParams e ts rp b) =
     (if ts = None \<and> timestamp rp = None then None
      else let start = (case ts of Some t \<Rightarrow> t | None \<Rightarrow> the (timestamp rp))
           in Some (if duration rp \<noteq> 0 \<and> truthy (timestamp rp)
                    then max start (the (timestamp rp)) else start))"
  by (simp add: updateSocketRequestParams_def Let_def)

section \<open>The window planner\<close>

text \<open>
  Claim C1.  With \<^verbatim>\<open>bufferLength = 10\<close>, \<^verbatim>\<open>TIME_WINDOW = 2\<close>, a total duration of 30
  and a session start of 100, the chunk size of every planned window is
  \<open>min 30 (10 + 2) = 12\<close>.  When the buffer has loaded the range from 100 to 112, the
  window planned for 105 has duration 0 (its start lies in the loaded range), and
  the window planned for 113 starts at 113 and has duration 12, so that it ends at
  125: the first clamp asks for a start strictly below the end of the loaded range.
  The same holds at the boundary itself, for the window planned for 112.
\<close>

theorem window_clamp_scenario:
  assumes "TIME_WINDOW e = 2" and "bufferLength rp = Some 10" and "duration rp = 30"
    and "timestamp rp = Some 100"
    and "getLoadedTimeRange e b = Some \<lparr>range_start = 100, range_end = 112\<rparr>"
  shows "chunkSize (updateSocketRequestParams e ts rp b0) = 12
    \<and> duration (updateSocketRequestParams e (Some 105) rp b) = 0
    \<and> timestamp (updateSocketRequestParams e (Some 113) rp b) = Some 113
    \<and> duration (updateSocketRequestParams e (Some 113) rp b) = 12
    \<and> chunkSize (updateSocketRequestParams e (Some 113) rp b) = 12
    \<and> timestamp (updateSocketRequestParams e (Some 112) rp b) = Some 112
    \<and> duration (updateSocketRequestParams e (Some 112) rp b) = 12"
  using assms by (simp add: updateSocketRequestParams_def truthy_def Let_def)

text \<open>The scenario on the small buffer.\<close>

theorem window_clamp_scenario_witness:
  "TIME_WINDOW (sample_env 2) = 2 \<and> bufferLength (sample_params (Some 100)) = Some 10
   \<and> duration (sample_params (Some 100)) = 30
   \<and> timestamp (sample_params (Some 100)) = Some 100
   \<and> getLoadedTimeRange (sample_env 2) (sample_loaded 100 112)
       = Some \<lparr>range_start = 100, range_end = 112\<rparr>
   \<and> chunkSize (updateSocketRequestParams (sample_env 2) None (sample_params (Some 100))
        (sample_loaded 100 112)) = 12
   \<and> duration (updateSocketRequestParams (sample_env 2) (Some 105) (sample_params (Some 100))
        (sample_loaded 100 112)) = 0
   \<and> timestamp (updateSocketRequestParams (sample_env 2) (Some 113) (sample_params (Some 100))
        (sample_loaded 100 112)) = Some 113
   \<and> duration (updateSocketRequestParams (sample_env 2) (Some 113) (sample_params (Some 100))
        (sample_loaded 100 112)) = 12"
proof -
  have h: "TIME_WINDOW (sample_env 2) = 2" "bufferLength (sample_params (Some 100)) = Some 10"
    "duration (sample_params (Some 100)) = 30" "timestamp (sample_params (Some 100)) = Some 100"
    "getLoadedTimeRange (sample_env 2) (sample_loaded 100 112)
       = Some \<lparr>range_start = 100, range_end = 112\<rparr>"
    by (simp_all add: sample_env_def sample_params_def sample_loaded_def)
  from window_clamp_scenario [OF h, of None] h show ?thesis by simp
qed

text \<open>
  Claim C3, as stated: for every target timestamp the planned window, from
  \<^verbatim>\<open>timestamp\<close> to \<^verbatim>\<open>timestamp + duration\<close>, lies within the session, from its start
  to its start plus the total duration.  It fails for a target beyond the end of the
  session: with a session from 100 to 130, the window planned for 200 starts at 200
  (and has duration 0).
\<close>

theorem session_bound_counterexample:
  "timestamp (sample_params (Some 100)) = Some 100 \<and> duration (sample_params (Some 100)) = 30
   \<and> timestamp (updateSocketRequestParams (sample_env 2) (Some 200) (sample_params (Some 100))
        (sample_loaded 100 112)) = Some 200
   \<and> duration (updateSocketRequestParams (sample_env 2) (Some 200) (sample_params (Some 100))
        (sample_loaded 100 112)) = 0
   \<and> \<not> ((200::rat) + 0 \<le> 100 + 30)"
  by (simp add: updateSocketRequestParams_def truthy_def Let_def
      sample_env_def sample_params_def sample_loaded_def)

text \<open>
  Claim C3, amended.  When the session start (the initial timestamp of the request
  parameters) is set and not zero, and the total duration is not zero (the guard of the
  clamp, line 110), the planned window starts at or after the session start, its
  duration is not negative, and it ends at or before the session end unless it
  already starts beyond the session end, where its duration is 0.  In particular a
  window of positive duration lies within the session.
\<close>

theorem session_bound_amended:
  assumes "timestamp rp = Some t0" and "t0 \<noteq> 0" and "duration rp \<noteq> 0"
  shows "\<exists>a. timestamp (updateSocketRequestParams e ts rp b) = Some a
     \<and> t0 \<le> a
     \<and> 0 \<le> duration (updateSocketRequestParams e ts rp b)
     \<and> a + duration (updateSocketRequestParams e ts rp b) \<le> max a (t0 + duration rp)"
proof -
  define start where "start = (case ts of Some t \<Rightarrow> t | None \<Rightarrow> t0)"
  define w where "w = updateSocketRequestParams e ts rp b"
  have ts: "timestamp w = Some (max start t0)"
    using assms by (cases ts) (simp_all add: w_def upd_timestamp truthy_def start_def)
  have "\<exists>end1. duration w = max 0 (min end1 (t0 + duration rp) - max start t0)"
  proof (cases ts)
    case None
    show ?thesis
      unfolding w_def updateSocketRequestParams_def Let_def None start_def using assms
      by (simp add: truthy_def split del: if_split) (rule exI, rule refl)
  next
    case (Some t)
    show ?thesis
      unfolding w_def updateSocketRequestParams_def Let_def Some start_def using assms
      by (simp add: truthy_def split del: if_split) (rule exI, rule refl)
  qed
  then obtain end1 where d: "duration w = max 0 (min end1 (t0 + duration rp) - max start t0)"
    by blast
  have "t0 \<le> max start t0" by simp
  moreover have "0 \<le> duration w" by (simp add: d)
  moreover have "max start t0 + duration w \<le> max (max start t0) (t0 + duration rp)"
    unfolding d by linarith
  ultimately show ?thesis using ts unfolding w_def by blast
qed

text \<open>The amended bound at the window planned for 113 in the scenario of C1.\<close>

theorem session_bound_amended_witness:
  "timestamp (sample_params (Some 100)) = Some 100 \<and> (100::rat) \<noteq> 0
   \<and> duration (sample_params (Some 100)) \<noteq> 0
   \<and> (\<exists>a. timestamp (updateSocketRequestParams (sample_env 2) (Some 113)
              (sample_params (Some 100)) (sample_loaded 100 112)) = Some a
        \<and> 100 \<le> a
        \<and> 0 \<le> duration (updateSocketRequestParams (sample_env 2) (Some 113)
              (sample_params (Some 100)) (sample_loaded 100 112))
        \<and> a + duration (updateSocketRequestParams (sample_env 2) (Some 113)
              (sample_params (Some 100)) (sample_loaded 100 112))
            \<le> max a (100 + duration (sample_params (Some 100))))"
proof -
  have h: "timestamp (sample_params (Some 100)) = Some 100" "(100::rat) \<noteq> 0"
    "duration (sample_params (Some 100)) \<noteq> 0"
    by (simp_all add: sample_params_def)
  from session_bound_amended [OF h, of "sample_env 2" "Some 113" "sample_loaded 100 112"] h
  show ?thesis by blast
qed

section \<open>seek\<close>

lemma seek_within_range:
  assumes "lastRequest s = Some lr" and "timestamp lr = Some l"
    and "l + TIME_WINDOW e \<le> clampTime e t" and "clampTime e t \<le> l + chunkSize lr"
  shows "seek e t s = Returned (prune_buffer e (clampTime e t) (super_seek e t s))"
proof -
  from assms(3) have "l \<le> clampTime e t - TIME_WINDOW e" by linarith
  with assms show ?thesis by (simp add: seek_def Let_def)
qed

text \<open>
  Claim C2, as stated: for any two timestamps inside the interval from
  \<^verbatim>\<open>lastRequest.timestamp\<close> to \<^verbatim>\<open>lastRequest.timestamp + chunkSize - TIME_WINDOW\<close>, two
  seeks issue no further fetch request.  It fails.  In the session on the small
  buffer the last request starts at 100 and has chunk size 12, and
  \<^verbatim>\<open>TIME_WINDOW\<close> is 2, so that 100 and 105 lie in the interval from 100 to 110; yet
  the seek to 100 has its buffer start at 98, before the last request, and sends a
  \<^verbatim>\<open>play\<close> request for the window that starts at 98.
\<close>

theorem seek_claimed_interval_counterexample:
  "lastRequest sample_session = Some (sample_play 100)
   \<and> timestamp (sample_play 100) = Some 100 \<and> chunkSize (sample_play 100) = 12
   \<and> TIME_WINDOW (sample_env 2) = 2
   \<and> clampTime (sample_env 2) 100 = 100 \<and> clampTime (sample_env 2) 105 = 105
   \<and> (100::rat) \<le> 100 \<and> (100::rat) \<le> 100 + 12 - 2
   \<and> (100::rat) \<le> 105 \<and> (105::rat) \<le> 100 + 12 - 2
   \<and> trace (state_of (seek (sample_env 2) 105 (state_of (seek (sample_env 2) 100 sample_session))))
       = trace sample_session @ [Send 1 (Play (sample_play 98))]
   \<and> lastRequest (state_of (seek (sample_env 2) 100 sample_session))
       = Some (sample_play 98)"
  by code_simp

text \<open>
  Claim C2, amended.  The test of \<^verbatim>\<open>seek\<close> (lines 215 to 221) is on the clamped
  timestamp \<open>c\<close>: \<open>c - TIME_WINDOW \<ge> lastRequest.timestamp\<close> and
  \<open>c \<le> lastRequest.timestamp + chunkSize\<close>.  So for any two timestamps whose clamped
  values lie in the interval from \<^verbatim>\<open>lastRequest.timestamp + TIME_WINDOW\<close> to
  \<^verbatim>\<open>lastRequest.timestamp + chunkSize\<close>, the two seeks return without a throw, leave
  \<^verbatim>\<open>lastRequest\<close>, the socket and the handler as they were, and add nothing to the
  trace but the republished stream sets of the pruning: no request is sent, no socket
  is closed and no connection is started.
\<close>

theorem seek_idempotent_within_window:
  assumes "lastRequest s = Some lr" and "timestamp lr = Some l"
    and "l + TIME_WINDOW e \<le> clampTime e t1" and "clampTime e t1 \<le> l + chunkSize lr"
    and "l + TIME_WINDOW e \<le> clampTime e t2" and "clampTime e t2 \<le> l + chunkSize lr"
  shows "\<exists>s1 s2 pub.
      seek e t1 s = Returned s1 \<and> seek e t2 s1 = Returned s2
    \<and> lastRequest s2 = lastRequest s \<and> socket s2 = socket s \<and> xvizHandler s2 = xvizHandler s
    \<and> trace s2 = trace s @ pub \<and> (\<forall>x\<in>set pub. \<exists>v. x = SetStreams v)"
proof -
  define s1 where "s1 = prune_buffer e (clampTime e t1) (super_seek e t1 s)"
  define s2 where "s2 = prune_buffer e (clampTime e t2) (super_seek e t2 s1)"
  have 1: "seek e t1 s = Returned s1"
    unfolding s1_def using assms(1-4) by (rule seek_within_range)
  have "lastRequest s1 = Some lr" by (simp add: s1_def assms(1))
  then have 2: "seek e t2 s1 = Returned s2"
    unfolding s2_def using assms(2,5,6) by (rule seek_within_range)
  have 3: "lastRequest s2 = lastRequest s" "socket s2 = socket s" "xvizHandler s2 = xvizHandler s"
    by (simp_all add: s2_def s1_def)
  obtain p1 where p1: "trace s1 = trace s @ p1" "\<forall>x\<in>set p1. \<exists>v. x = SetStreams v"
    by (simp add: s1_def prune_buffer_trace)
  obtain p2 where p2: "trace s2 = trace s1 @ p2" "\<forall>x\<in>set p2. \<exists>v. x = SetStreams v"
    by (simp add: s2_def prune_buffer_trace)
  have "trace s2 = trace s @ (p1 @ p2)" "\<forall>x\<in>set (p1 @ p2). \<exists>v. x = SetStreams v"
    using p1 p2 by auto
  with 1 2 3 show ?thesis by blast
qed

text \<open>Two seeks, to 103 and to 112, in the session whose last request starts at 100.\<close>

theorem seek_idempotent_within_window_witness:
  "lastRequest sample_session = Some (sample_play 100)
   \<and> timestamp (sample_play 100) = Some 100
   \<and> 100 + TIME_WINDOW (sample_env 2) \<le> clampTime (sample_env 2) 103
   \<and> clampTime (sample_env 2) 103 \<le> 100 + chunkSize (sample_play 100)
   \<and> 100 + TIME_WINDOW (sample_env 2) \<le> clampTime (sample_env 2) 112
   \<and> clampTime (sample_env 2) 112 \<le> 100 + chunkSize (sample_play 100)
   \<and> (\<exists>s1 s2 pub.
      seek (sample_env 2) 103 sample_session = Returned s1
    \<and> seek (sample_env 2) 112 s1 = Returned s2
    \<and> lastRequest s2 = lastRequest sample_session \<and> socket s2 = socket sample_session
    \<and> xvizHandler s2 = xvizHandler sample_session
    \<and> trace s2 = trace sample_session @ pub \<and> (\<forall>x\<in>set pub. \<exists>v. x = SetStreams v))"
proof -
  have h: "lastRequest sample_session = Some (sample_play 100)"
    "timestamp (sample_play 100) = Some 100"
    "100 + TIME_WINDOW (sample_env 2) \<le> clampTime (sample_env 2) 103"
    "clampTime (sample_env 2) 103 \<le> 100 + chunkSize (sample_play 100)"
    "100 + TIME_WINDOW (sample_env 2) \<le> clampTime (sample_env 2) 112"
    "clampTime (sample_env 2) 112 \<le> 100 + chunkSize (sample_play 100)"
    by code_simp+
  from seek_idempotent_within_window [OF h] h show ?thesis by blast
qed

text \<open>
  Claim C7.  A window of duration 0 is never sent: whenever the window planned by
  \<^verbatim>\<open>seek\<close> (for the buffer start, on the pruned buffer) has duration 0, \<^verbatim>\<open>seek\<close>
  returns the state as the pruning left it: \<^verbatim>\<open>lastRequest\<close> and the socket are
  unchanged, and the trace gains nothing but the republished stream set of the
  pruning, so no \<^verbatim>\<open>play\<close> request is sent, no socket is closed and \<^verbatim>\<open>connect\<close> is
  not called.
\<close>

theorem seek_zero_duration_sends_nothing:
  assumes "duration (updateSocketRequestParams e (Some (clampTime e t - TIME_WINDOW e))
             (requestParams s) (setCurrentTime e (clampTime e t) (streamBuffer s))) = 0"
  shows "seek e t s = Returned (prune_buffer e (clampTime e t) (super_seek e t s))
    \<and> lastRequest (state_of (seek e t s)) = lastRequest s
    \<and> socket (state_of (seek e t s)) = socket s
    \<and> trace (state_of (seek e t s)) =
        trace s @ (if valueOf e (setCurrentTime e (clampTime e t) (streamBuffer s))
                      \<noteq> valueOf e (streamBuffer s)
                   then [SetStreams (getStreams e (setCurrentTime e (clampTime e t) (streamBuffer s)))]
                   else [])"
proof -
  have "seek e t s = Returned (prune_buffer e (clampTime e t) (super_seek e t s))"
    using assms by (simp add: seek_def Let_def split: option.splits)
  then show ?thesis by (simp add: prune_buffer_trace)
qed

text \<open>A seek to 120 when the range from 100 to 125 is loaded: the seek is outside the
  last request (100 to 112), the planner is called and returns duration 0.\<close>

theorem seek_zero_duration_sends_nothing_witness:
  "duration (updateSocketRequestParams (sample_env 2)
      (Some (clampTime (sample_env 2) 120 - TIME_WINDOW (sample_env 2)))
      (requestParams sample_loaded_session)
      (setCurrentTime (sample_env 2) (clampTime (sample_env 2) 120)
        (streamBuffer sample_loaded_session))) = 0
   \<and> lastRequest sample_loaded_session = Some (sample_play 100)
   \<and> \<not> (clampTime (sample_env 2) 120 \<le> 100 + chunkSize (sample_play 100))
   \<and> lastRequest (state_of (seek (sample_env 2) 120 sample_loaded_session))
       = lastRequest sample_loaded_session
   \<and> socket (state_of (seek (sample_env 2) 120 sample_loaded_session))
       = socket sample_loaded_session
   \<and> trace (state_of (seek (sample_env 2) 120 sample_loaded_session))
       = trace sample_loaded_session
         @ [SetStreams (Some \<lparr>range_start = 110, range_end = 125\<rparr>)]"
proof -
  have h: "duration (updateSocketRequestParams (sample_env 2)
      (Some (clampTime (sample_env 2) 120 - TIME_WINDOW (sample_env 2)))
      (requestParams sample_loaded_session)
      (setCurrentTime (sample_env 2) (clampTime (sample_env 2) 120)
        (streamBuffer sample_loaded_session))) = 0"
    by code_simp
  have v: "valueOf (sample_env 2) (setCurrentTime (sample_env 2) (clampTime (sample_env 2) 120)
             (streamBuffer sample_loaded_session))
           \<noteq> valueOf (sample_env 2) (streamBuffer sample_loaded_session)"
    "getStreams (sample_env 2) (setCurrentTime (sample_env 2) (clampTime (sample_env 2) 120)
             (streamBuffer sample_loaded_session))
       = Some \<lparr>range_start = 110, range_end = 125\<rparr>"
    "lastRequest sample_loaded_session = Some (sample_play 100)"
    "\<not> (clampTime (sample_env 2) 120 \<le> 100 + chunkSize (sample_play 100))"
    by code_simp+
  from seek_zero_duration_sends_nothing [OF h]
  have r: "lastRequest (state_of (seek (sample_env 2) 120 sample_loaded_session))
       = lastRequest sample_loaded_session"
    "socket (state_of (seek (sample_env 2) 120 sample_loaded_session))
       = socket sample_loaded_session"
    "trace (state_of (seek (sample_env 2) 120 sample_loaded_session))
       = trace sample_loaded_session
         @ (if valueOf (sample_env 2) (setCurrentTime (sample_env 2)
                 (clampTime (sample_env 2) 120) (streamBuffer sample_loaded_session))
               \<noteq> valueOf (sample_env 2) (streamBuffer sample_loaded_session)
            then [SetStreams (getStreams (sample_env 2) (setCurrentTime (sample_env 2)
                 (clampTime (sample_env 2) 120) (streamBuffer sample_loaded_session)))]
            else [])"
    by blast+
  from r h v show ?thesis by simp
qed

text \<open>
  Claim C10.  Every call of \<^verbatim>\<open>seek\<close> first advances the current time of the buffer
  and republishes the stream set if and only if the version of the buffer has
  changed: the trace of the result is the old trace, then the republished stream set
  exactly when the version changed, then effects that are no republication; and the
  buffer of the result is the pruned buffer.  When \<^verbatim>\<open>lastRequest\<close> is null,
  \<^verbatim>\<open>seek\<close> returns there: besides the clamped current time, the pruned buffer and
  the republished streams nothing has changed, nothing is sent, and \<^verbatim>\<open>lastRequest\<close>
  is still null.
\<close>

theorem seek_prunes_first:
  "(\<exists>rest. trace (state_of (seek e t s)) =
        trace s
        @ (if valueOf e (setCurrentTime e (clampTime e t) (streamBuffer s))
              \<noteq> valueOf e (streamBuffer s)
           then [SetStreams (getStreams e (setCurrentTime e (clampTime e t) (streamBuffer s)))]
           else [])
        @ rest
      \<and> (\<forall>x\<in>set rest. \<forall>v. x \<noteq> SetStreams v))
   \<and> streamBuffer (state_of (seek e t s)) = setCurrentTime e (clampTime e t) (streamBuffer s)
   \<and> (lastRequest s = None \<longrightarrow>
        seek e t s =
          Returned (if valueOf e (setCurrentTime e (clampTime e t) (streamBuffer s))
                       \<noteq> valueOf e (streamBuffer s)
                    then s\<lparr>streamBuffer := setCurrentTime e (clampTime e t) (streamBuffer s),
                           currentTime := Some (clampTime e t),
                           streams := Some (getStreams e
                             (setCurrentTime e (clampTime e t) (streamBuffer s))),
                           trace := trace s @ [SetStreams (getStreams e
                             (setCurrentTime e (clampTime e t) (streamBuffer s)))]\<rparr>
                    else s\<lparr>streamBuffer := setCurrentTime e (clampTime e t) (streamBuffer s),
                           currentTime := Some (clampTime e t)\<rparr>))"
proof -
  define p where "p = prune_buffer e (clampTime e t) (super_seek e t s)"
  have tr: "\<exists>rest. trace (state_of (seek e t s)) = trace p @ rest
              \<and> (\<forall>x\<in>set rest. \<forall>v. x \<noteq> SetStreams v)"
    and sb: "streamBuffer (state_of (seek e t s)) = streamBuffer p"
    unfolding p_def
    by (simp_all add: seek_def Let_def handler_send_def connect_start_def close_def isOpen_def
        split: option.splits)
  have nul: "lastRequest s = None \<longrightarrow> seek e t s = Returned p"
    unfolding p_def by (simp add: seek_def Let_def)
  have pe: "p = (if valueOf e (setCurrentTime e (clampTime e t) (streamBuffer s))
                       \<noteq> valueOf e (streamBuffer s)
                    then s\<lparr>streamBuffer := setCurrentTime e (clampTime e t) (streamBuffer s),
                           currentTime := Some (clampTime e t),
                           streams := Some (getStreams e
                             (setCurrentTime e (clampTime e t) (streamBuffer s))),
                           trace := trace s @ [SetStreams (getStreams e
                             (setCurrentTime e (clampTime e t) (streamBuffer s)))]\<rparr>
                    else s\<lparr>streamBuffer := setCurrentTime e (clampTime e t) (streamBuffer s),
                           currentTime := Some (clampTime e t)\<rparr>)"
    by (simp add: p_def prune_buffer_def super_seek_def set_streams_def effect_def Let_def)
  from tr sb nul show ?thesis
    unfolding pe [symmetric]
    by (cases "valueOf e (setCurrentTime e (clampTime e t) (streamBuffer s))
                 = valueOf e (streamBuffer s)")
      (simp_all add: p_def prune_buffer_trace)
qed

text \<open>A seek to 120 before any request was issued, with the range from 100 to 125
  loaded: the pruning changes the version.\<close>

theorem seek_prunes_first_witness:
  "lastRequest sample_early = None
   \<and> valueOf (sample_env 2) (setCurrentTime (sample_env 2) (clampTime (sample_env 2) 120)
        (streamBuffer sample_early))
      \<noteq> valueOf (sample_env 2) (streamBuffer sample_early)
   \<and> seek (sample_env 2) 120 sample_early =
       Returned (sample_early
         \<lparr>streamBuffer := setCurrentTime (sample_env 2) (clampTime (sample_env 2) 120)
            (streamBuffer sample_early),
          currentTime := Some (clampTime (sample_env 2) 120),
          streams := Some (getStreams (sample_env 2)
            (setCurrentTime (sample_env 2) (clampTime (sample_env 2) 120)
               (streamBuffer sample_early))),
          trace := trace sample_early @ [SetStreams (getStreams (sample_env 2)
            (setCurrentTime (sample_env 2) (clampTime (sample_env 2) 120)
               (streamBuffer sample_early)))]\<rparr>)"
proof -
  have h: "lastRequest sample_early = None"
    "valueOf (sample_env 2) (setCurrentTime (sample_env 2) (clampTime (sample_env 2) 120)
        (streamBuffer sample_early))
      \<noteq> valueOf (sample_env 2) (streamBuffer sample_early)"
    by code_simp+
  from seek_prunes_first [of "sample_env 2" 120 sample_early] h show ?thesis by simp
qed

section \<open>The dispatch of messages\<close>

text \<open>
  Claim C5.  The republication of the stream set is guarded by the version of the
  buffer, the \<^verbatim>\<open>update\<close> event is not.  A timeslice whose insertion leaves the
  version unchanged changes only the buffer and emits exactly one \<^verbatim>\<open>update\<close>: the
  published streams are as before and no stream set is republished.  A timeslice
  whose insertion changes the version republishes the stream set of the new buffer
  (and then emits the \<^verbatim>\<open>update\<close>, unless there is no synchronizer yet, where the
  handler throws before it).
\<close>

theorem timeslice_republish_version_gated:
  assumes "mtype m = TIMESLICE"
  shows "(valueOf e (insert_buf e m (streamBuffer s)) = valueOf e (streamBuffer s) \<longrightarrow>
            onWSMessage e m s =
              Returned (s\<lparr>streamBuffer := insert_buf e m (streamBuffer s),
                          trace := trace s @ [Emit (Update m)]\<rparr>))
       \<and> (valueOf e (insert_buf e m (streamBuffer s)) \<noteq> valueOf e (streamBuffer s) \<longrightarrow>
            streams (state_of (onWSMessage e m s)) =
              Some (getStreams e (insert_buf e m (streamBuffer s)))
          \<and> (\<exists>rest. trace (state_of (onWSMessage e m s)) =
                trace s @ SetStreams (getStreams e (insert_buf e m (streamBuffer s))) # rest
              \<and> (rest = [] \<or> rest = [Emit (Update m)])))"
  using assms
  by (simp add: onWSMessage_def Let_def emit_def effect_def set_streams_def split: option.splits)

text \<open>On the small buffer, whose window is 95 to 115: the timeslice at 200 is refused
  and leaves the version unchanged, the timeslice at 110 changes it.\<close>

theorem timeslice_republish_version_gated_witness:
  "mtype (sample_slice 200) = TIMESLICE
   \<and> valueOf (sample_env 2) (insert_buf (sample_env 2) (sample_slice 200) (streamBuffer sample_cached))
       = valueOf (sample_env 2) (streamBuffer sample_cached)
   \<and> onWSMessage (sample_env 2) (sample_slice 200) sample_cached
       = Returned (sample_cached
           \<lparr>streamBuffer := insert_buf (sample_env 2) (sample_slice 200) (streamBuffer sample_cached),
            trace := trace sample_cached @ [Emit (Update (sample_slice 200))]\<rparr>)
   \<and> mtype (sample_slice 110) = TIMESLICE
   \<and> valueOf (sample_env 2) (insert_buf (sample_env 2) (sample_slice 110) (streamBuffer sample_cached))
       \<noteq> valueOf (sample_env 2) (streamBuffer sample_cached)
   \<and> streams (state_of (onWSMessage (sample_env 2) (sample_slice 110) sample_cached))
       = Some (getStreams (sample_env 2)
           (insert_buf (sample_env 2) (sample_slice 110) (streamBuffer sample_cached)))"
proof -
  have h: "mtype (sample_slice 200) = TIMESLICE" "mtype (sample_slice 110) = TIMESLICE"
    by (simp_all add: sample_slice_def)
  have v: "valueOf (sample_env 2) (insert_buf (sample_env 2) (sample_slice 200) (streamBuffer sample_cached))
       = valueOf (sample_env 2) (streamBuffer sample_cached)"
    "valueOf (sample_env 2) (insert_buf (sample_env 2) (sample_slice 110) (streamBuffer sample_cached))
       \<noteq> valueOf (sample_env 2) (streamBuffer sample_cached)"
    by code_simp+
  from timeslice_republish_version_gated [OF h(1), of "sample_env 2" sample_cached]
    timeslice_republish_version_gated [OF h(2), of "sample_env 2" sample_cached] h v
  show ?thesis by blast
qed

text \<open>
  Claim C4, as stated: after every timeslice message the cache of the synchronizer
  (\<^verbatim>\<open>_streamsByReverseTime\<close>) is cleared, also when the insertion does not change the
  version of the buffer.  It fails: the timeslice at 200 is dispatched (the
  \<^verbatim>\<open>update\<close> is emitted), the version is unchanged, and the cache is still filled.
\<close>

theorem timeslice_cache_counterexample:
  "mtype (sample_slice 200) = TIMESLICE
   \<and> logSynchronizer sample_cached = Some sample_cache
   \<and> streamsByReverseTime sample_cache = Some (Some \<lparr>range_start = 100, range_end = 115\<rparr>)
   \<and> onWSMessage (sample_env 2) (sample_slice 200) sample_cached
       = Returned (sample_cached\<lparr>trace := trace sample_cached @ [Emit (Update (sample_slice 200))]\<rparr>)
   \<and> logSynchronizer (state_of (onWSMessage (sample_env 2) (sample_slice 200) sample_cached))
       = Some sample_cache"
  by code_simp

text \<open>
  Claim C4, amended.  The cache is cleared inside the test of the version (lines 349
  to 352): after a timeslice message, with a synchronizer present, the cache of the
  synchronizer is cleared if the insertion has changed the version of the buffer, and
  the synchronizer is untouched otherwise.
\<close>

theorem timeslice_invalidates_on_version_change:
  assumes "mtype m = TIMESLICE" and "logSynchronizer s = Some sy"
  shows "logSynchronizer (state_of (onWSMessage e m s)) =
           Some (if valueOf e (insert_buf e m (streamBuffer s)) \<noteq> valueOf e (streamBuffer s)
                 then sy\<lparr>streamsByReverseTime := None\<rparr> else sy)"
  using assms
  by (simp add: onWSMessage_def Let_def emit_def effect_def set_streams_def)

text \<open>The timeslice at 110 changes the version and clears the cache.\<close>

theorem timeslice_invalidates_on_version_change_witness:
  "mtype (sample_slice 110) = TIMESLICE \<and> logSynchronizer sample_cached = Some sample_cache
   \<and> valueOf (sample_env 2) (insert_buf (sample_env 2) (sample_slice 110) (streamBuffer sample_cached))
       \<noteq> valueOf (sample_env 2) (streamBuffer sample_cached)
   \<and> logSynchronizer (state_of (onWSMessage (sample_env 2) (sample_slice 110) sample_cached))
       = Some (sample_cache\<lparr>streamsByReverseTime := None\<rparr>)"
proof -
  have h: "mtype (sample_slice 110) = TIMESLICE" "logSynchronizer sample_cached = Some sample_cache"
    by code_simp+
  have v: "valueOf (sample_env 2) (insert_buf (sample_env 2) (sample_slice 110) (streamBuffer sample_cached))
       \<noteq> valueOf (sample_env 2) (streamBuffer sample_cached)"
    by code_simp
  from timeslice_invalidates_on_version_change [OF h, of "sample_env 2"] h v
  show ?thesis by simp
qed

lemma onWSMessage_other:
  assumes "mtype m \<noteq> METADATA"
  shows "metadata (run_handler (onWSMessage e m s)) = metadata s"
    and "xvizHandler (run_handler (onWSMessage e m s)) = xvizHandler s"
    and "filter is_ready (trace (run_handler (onWSMessage e m s))) = filter is_ready (trace s)"
    and "filter is_sync_init (trace (run_handler (onWSMessage e m s))) =
           filter is_sync_init (trace s)"
  using assms
  by (cases "mtype m";
      simp add: onWSMessage_def run_handler_def emit_def set_streams_def Let_def
        split: option.splits)+

lemma onWSMessage_first_metadata:
  assumes "mtype m = METADATA" and "metadata s = None" and "xvizHandler s = Some ws"
  shows "metadata (run_handler (onWSMessage e m s)) = Some m"
    and "xvizHandler (run_handler (onWSMessage e m s)) = xvizHandler s"
    and "filter is_ready (trace (run_handler (onWSMessage e m s))) =
           filter is_ready (trace s) @ [Emit (Ready m)]"
    and "filter is_sync_init (trace (run_handler (onWSMessage e m s))) =
           filter is_sync_init (trace s) @ [NewSynchronizer (start_time m)]"
  using assms
  by (simp_all add: onWSMessage_def run_handler_def emit_def handler_send_def setMetadata_def
      Let_def)

lemma onWSMessage_later_metadata:
  "metadata s \<noteq> None \<Longrightarrow> mtype m = METADATA \<Longrightarrow> onWSMessage e m s = Returned s"
  by (simp add: onWSMessage_def)

lemma dispatch_all_after_metadata:
  assumes "metadata s \<noteq> None"
  shows "metadata (dispatch_all e ms s) = metadata s
    \<and> filter is_ready (trace (dispatch_all e ms s)) = filter is_ready (trace s)
    \<and> filter is_sync_init (trace (dispatch_all e ms s)) = filter is_sync_init (trace s)"
  using assms
proof (induction ms arbitrary: s)
  case Nil
  then show ?case by simp
next
  case (Cons m ms)
  show ?case
  proof (cases "mtype m = METADATA")
    case True
    with Cons.prems have "onWSMessage e m s = Returned s" by (rule onWSMessage_later_metadata)
    with Cons show ?thesis by (simp add: run_handler_def)
  next
    case False
    note o = onWSMessage_other [OF False, of e s]
    from o(1) Cons.prems have "metadata (run_handler (onWSMessage e m s)) \<noteq> None" by simp
    from Cons.IH [OF this] o show ?thesis by simp
  qed
qed

lemma dispatch_all_first_metadata:
  assumes "metadata s = None" and "xvizHandler s = Some ws"
    and "\<exists>m\<in>set ms. mtype m = METADATA"
  shows "metadata (dispatch_all e ms s) = List.find (\<lambda>m. mtype m = METADATA) ms
    \<and> length (filter is_ready (trace (dispatch_all e ms s))) =
        length (filter is_ready (trace s)) + 1
    \<and> length (filter is_sync_init (trace (dispatch_all e ms s))) =
        length (filter is_sync_init (trace s)) + 1"
  using assms
proof (induction ms arbitrary: s)
  case Nil
  then show ?case by simp
next
  case (Cons m ms)
  show ?case
  proof (cases "mtype m = METADATA")
    case True
    note f = onWSMessage_first_metadata [OF True Cons.prems(1,2), of e]
    from f(1) have "metadata (run_handler (onWSMessage e m s)) \<noteq> None" by simp
    from dispatch_all_after_metadata [OF this, of e ms] f True show ?thesis by simp
  next
    case False
    note o = onWSMessage_other [OF False, of e s]
    from False Cons.prems(3) have ex: "\<exists>m\<in>set ms. mtype m = METADATA" by auto
    from o Cons.prems have "metadata (run_handler (onWSMessage e m s)) = None"
      "xvizHandler (run_handler (onWSMessage e m s)) = Some ws" by simp_all
    from Cons.IH [OF this ex] o False show ?thesis by simp
  qed
qed

lemma ws_events_messages:
  "ws_events e ws (map (\<lambda>m. EvMessage (Some m)) ms) (r, s) = (r, dispatch_all e ms s)"
  by (induction ms arbitrary: s) (simp_all add: ws_onmessage_def)

lemma ws_onopen_state:
  "\<exists>s1. ws_onopen ws (Unsettled, s) = (Fulfilled, s1) \<and> xvizHandler s1 = Some ws
     \<and> metadata s1 = metadata s
     \<and> filter is_ready (trace s1) = filter is_ready (trace s)
     \<and> filter is_sync_init (trace s1) = filter is_sync_init (trace s)"
  by (simp add: ws_onopen_def onWSOpen_def handler_send_def Let_def split: option.splits)

lemma connection_first_metadata:
  assumes "metadata s = None" and "\<exists>m\<in>set ms. mtype m = METADATA"
  shows "metadata (snd (ws_events e ws (EvOpen # map (\<lambda>m. EvMessage (Some m)) ms) (Unsettled, s)))
       = List.find (\<lambda>m. mtype m = METADATA) ms
    \<and> length (filter is_ready (trace (snd (ws_events e ws
          (EvOpen # map (\<lambda>m. EvMessage (Some m)) ms) (Unsettled, s)))))
       = length (filter is_ready (trace s)) + 1
    \<and> length (filter is_sync_init (trace (snd (ws_events e ws
          (EvOpen # map (\<lambda>m. EvMessage (Some m)) ms) (Unsettled, s)))))
       = length (filter is_sync_init (trace s)) + 1"
proof -
  obtain s1 where s1: "ws_onopen ws (Unsettled, s) = (Fulfilled, s1)" "xvizHandler s1 = Some ws"
    "metadata s1 = metadata s" "filter is_ready (trace s1) = filter is_ready (trace s)"
    "filter is_sync_init (trace s1) = filter is_sync_init (trace s)"
    using ws_onopen_state [of ws s] by blast
  have run: "snd (ws_events e ws (EvOpen # map (\<lambda>m. EvMessage (Some m)) ms) (Unsettled, s))
      = dispatch_all e ms s1"
    by (simp add: s1(1) ws_events_messages)
  from s1 assms have "metadata s1 = None" by simp
  from dispatch_all_first_metadata [OF this s1(2) assms(2), of e] s1 show ?thesis
    unfolding run by simp
qed

text \<open>
  Claim C6.  Metadata is accepted once.  On a connection that opens and then delivers
  any sequence of messages with a metadata message among them, to a loader that has
  no metadata yet, exactly one \<^verbatim>\<open>ready\<close> event is emitted and the synchronizer is
  constructed exactly once, and the metadata kept is that of the first metadata
  message; the same holds for the dispatch of the messages to a loader that has a
  handler.  Once metadata is accepted, a metadata message returns with the state of
  the loader unchanged: metadata, synchronizer, \<^verbatim>\<open>lastRequest\<close> and trace are as
  before, so nothing is sent.
\<close>

theorem metadata_idempotence:
  "(metadata s = None \<and> (\<exists>m\<in>set ms. mtype m = METADATA) \<longrightarrow>
      metadata (snd (ws_events e ws (EvOpen # map (\<lambda>m. EvMessage (Some m)) ms) (Unsettled, s)))
        = List.find (\<lambda>m. mtype m = METADATA) ms
    \<and> length (filter is_ready (trace (snd (ws_events e ws
          (EvOpen # map (\<lambda>m. EvMessage (Some m)) ms) (Unsettled, s)))))
        = length (filter is_ready (trace s)) + 1
    \<and> length (filter is_sync_init (trace (snd (ws_events e ws
          (EvOpen # map (\<lambda>m. EvMessage (Some m)) ms) (Unsettled, s)))))
        = length (filter is_sync_init (trace s)) + 1)
   \<and> (metadata s = None \<and> xvizHandler s \<noteq> None \<and> (\<exists>m\<in>set ms. mtype m = METADATA) \<longrightarrow>
      metadata (dispatch_all e ms s) = List.find (\<lambda>m. mtype m = METADATA) ms
    \<and> length (filter is_ready (trace (dispatch_all e ms s))) =
        length (filter is_ready (trace s)) + 1
    \<and> length (filter is_sync_init (trace (dispatch_all e ms s))) =
        length (filter is_sync_init (trace s)) + 1)
   \<and> (metadata s' \<noteq> None \<and> mtype m = METADATA \<longrightarrow> onWSMessage e m s' = Returned s')"
  using connection_first_metadata [of s ms e ws] dispatch_all_first_metadata [of s _ ms e]
    onWSMessage_later_metadata [of s' m e]
  by auto

text \<open>Two metadata messages with a timeslice between them.\<close>

theorem metadata_idempotence_witness:
  "metadata (sample_fresh 2 None) = None
   \<and> sample_metadata \<in> set [sample_metadata, sample_slice 100, Message METADATA (Some 50) 0]
   \<and> mtype sample_metadata = METADATA
   \<and> metadata (snd (ws_events (sample_env 2) 1
        (EvOpen # map (\<lambda>m. EvMessage (Some m))
           [sample_metadata, sample_slice 100, Message METADATA (Some 50) 0])
        (Unsettled, sample_fresh 2 None)))
       = Some sample_metadata
   \<and> length (filter is_ready (trace (snd (ws_events (sample_env 2) 1
        (EvOpen # map (\<lambda>m. EvMessage (Some m))
           [sample_metadata, sample_slice 100, Message METADATA (Some 50) 0])
        (Unsettled, sample_fresh 2 None)))))
       = length (filter is_ready (trace (sample_fresh 2 None))) + 1
   \<and> length (filter is_sync_init (trace (snd (ws_events (sample_env 2) 1
        (EvOpen # map (\<lambda>m. EvMessage (Some m))
           [sample_metadata, sample_slice 100, Message METADATA (Some 50) 0])
        (Unsettled, sample_fresh 2 None)))))
       = length (filter is_sync_init (trace (sample_fresh 2 None))) + 1
   \<and> metadata sample_opened = None \<and> xvizHandler sample_opened \<noteq> None
   \<and> length (filter is_ready (trace (dispatch_all (sample_env 2)
        [sample_metadata, sample_slice 100, Message METADATA (Some 50) 0] sample_opened)))
       = length (filter is_ready (trace sample_opened)) + 1
   \<and> metadata sample_session \<noteq> None \<and> mtype (Message METADATA (Some 50) (0::rat)) = METADATA
   \<and> onWSMessage (sample_env 2) (Message METADATA (Some 50) 0) sample_session
       = Returned sample_session"
proof -
  have h: "metadata (sample_fresh 2 None) = None" "metadata sample_opened = None"
    "xvizHandler sample_opened \<noteq> None" "metadata sample_session \<noteq> None"
    by code_simp+
  have m: "mtype sample_metadata = METADATA" "mtype (Message METADATA (Some 50) (0::rat)) = METADATA"
    "sample_metadata \<in> set [sample_metadata, sample_slice 100, Message METADATA (Some 50) 0]"
    by (simp_all add: sample_metadata_def)
  have f: "List.find (\<lambda>m. mtype m = METADATA)
             [sample_metadata, sample_slice 100, Message METADATA (Some 50) 0] = Some sample_metadata"
    by (simp add: sample_metadata_def)
  from metadata_idempotence [of "sample_fresh 2 None"
      "[sample_metadata, sample_slice 100, Message METADATA (Some 50) 0]" "sample_env 2" 1
      sample_session "Message METADATA (Some 50) 0"]
    metadata_idempotence [of sample_opened
      "[sample_metadata, sample_slice 100, Message METADATA (Some 50) 0]" "sample_env 2" 1
      sample_session "Message METADATA (Some 50) 0"] h m f
  show ?thesis by auto
qed

section \<open>connect and the retry\<close>

lemma onWSOpen_returns:
  "socket s = Some ws \<Longrightarrow> \<exists>s1. onWSOpen s = Returned s1"
  by (simp add: onWSOpen_def handler_send_def Let_def split: option.splits)

lemma ws_deliver_settled:
  "r \<noteq> Unsettled \<Longrightarrow> fst (ws_deliver e ws ev (r, s)) = r"
  by (cases ev) (simp_all add: ws_onopen_def ws_onclose_def ws_onmessage_def ws_onerror_def
      Let_def split: outcome.splits option.splits)

lemma ws_events_settled:
  "r \<noteq> Unsettled \<Longrightarrow> fst (ws_events e ws evs (r, s)) = r"
proof (induction evs arbitrary: s)
  case Nil
  then show ?case by simp
next
  case (Cons ev evs)
  obtain r1 s1 where d: "ws_deliver e ws ev (r, s) = (r1, s1)" by (cases "ws_deliver e ws ev (r, s)")
  with ws_deliver_settled [OF Cons.prems, of e ws ev s] have "r1 = r" by simp
  with Cons d show ?case by simp
qed

lemma ws_events_after_open:
  "fst (ws_events e ws (EvOpen # evs) (Unsettled, s)) = Fulfilled"
proof -
  obtain s1 where "onWSOpen (s\<lparr>socket := Some ws\<rparr>) = Returned s1"
    using onWSOpen_returns [of "s\<lparr>socket := Some ws\<rparr>" ws] by auto
  then have "ws_deliver e ws EvOpen (Unsettled, s) = (Fulfilled, s1)"
    by (simp add: ws_onopen_def)
  then show ?thesis by (simp add: ws_events_settled)
qed

text \<open>
  Claim C8.  When an attempt fails (its promise is rejected, so that the \<^verbatim>\<open>catch\<close>
  handler runs), \<^verbatim>\<open>retry()\<close> is called if and only if the close code is greater than
  1000 and not 1005, or no socket is recorded; otherwise the attempt ends without a
  retry.  This holds for the failure a close event brings to an unsettled attempt.
  So a clean closure with a socket recorded asks for no retry, and a closure after the
  attempt has reached Open asks for none whatever its code: the promise is settled,
  the \<^verbatim>\<open>catch\<close> handler does not run, and the close event leaves nothing but the
  probe \<^verbatim>\<open>socket_closed\<close>.
\<close>

theorem retry_classification:
  "fst (connect_catch ev s) =
      (if (case code ev of Some c \<Rightarrow> c > 1000 \<and> c \<noteq> 1005 | None \<Rightarrow> False) \<or> socket s = None
       then RetryRequested else Fulfilled)
   \<and> fst (ws_onclose c (Unsettled, s)) =
      (if (c > 1000 \<and> c \<noteq> 1005) \<or> socket s = None then RetryRequested else Fulfilled)
   \<and> ws_onclose c (Fulfilled, s) = (Fulfilled, effect (Debug ''socket_closed'') s)
   \<and> fst (ws_events e ws (EvOpen # evs) (Unsettled, s)) = Fulfilled"
  using ws_events_after_open [of e ws evs s]
  by (simp add: connect_catch_def ws_onclose_def isAbnormalClosure_def onWSError_def emit_def
      onWSClose_def Let_def)

text \<open>Close codes 1006, 1000 and 1005 with a socket recorded; code 1000 and a failed
  constructor without one; a closure with code 1006 after Open.\<close>

theorem retry_classification_witness:
  "fst (connect_catch (CloseEvent 1006) sample_session) = RetryRequested
   \<and> fst (connect_catch (CloseEvent 1000) sample_session) = Fulfilled
   \<and> fst (connect_catch (CloseEvent 1005) sample_session) = Fulfilled
   \<and> socket sample_session = Some 1
   \<and> socket (sample_fresh 2 None) = None
   \<and> fst (connect_catch (CloseEvent 1000) (sample_fresh 2 None)) = RetryRequested
   \<and> fst (connect_catch (Exception ''refused'') (sample_fresh 2 None)) = RetryRequested
   \<and> fst (ws_onclose 1006 (Unsettled, sample_fresh 2 None)) = RetryRequested
   \<and> fst (ws_events (sample_env 2) 1 [EvOpen, EvClose 1006] (Unsettled, sample_fresh 2 None))
       = Fulfilled"
proof -
  have h: "socket sample_session = Some 1" "socket (sample_fresh 2 None) = None"
    by code_simp+
  from retry_classification [of "CloseEvent 1006" sample_session]
    retry_classification [of "CloseEvent 1000" sample_session]
    retry_classification [of "CloseEvent 1005" sample_session]
    retry_classification [of "CloseEvent 1000" "sample_fresh 2 None"]
    retry_classification [where ev = "Exception ''refused''" and s = "sample_fresh 2 None"
      and c = 1006 and e = "sample_env 2" and ws = 1 and evs = "[EvClose 1006]"]
    h
  show ?thesis by simp
qed

text \<open>
  Claim C9.  With \<^verbatim>\<open>retries = 3\<close>, no socket recorded, and a transport whose every
  attempt is closed before it opens, \<^verbatim>\<open>connect\<close> makes the first attempt and exactly
  3 more, each creating a socket and emitting the \<^verbatim>\<open>error\<close> of its close event; then
  the single terminal \<^verbatim>\<open>error\<close> of the rejected retry loop is emitted, last, and
  \<^verbatim>\<open>connect\<close> is over: nothing but the trace has changed, so the loader has no
  socket.  (The close codes are arbitrary: without a socket every failure is
  retried.)
\<close>

theorem retry_bound:
  assumes "socket s = None" and "retries (retrySettings s) = 3"
    and "\<forall>n. transport n = Socket (ws n) [EvClose (c n)]"
  shows "connect e transport s =
     Returned (s\<lparr>trace := trace s @ [Debug ''stream_start'']
        @ concat (map (\<lambda>n. [NewSocket (url (requestParams s)), Debug ''socket_closed'',
                              Emit (Error (ErrFailure (CloseEvent (c n))))]) [1, 2, 3, 4])
        @ [Emit (Error ErrUndefined)]\<rparr>)"
  using assms
  by (simp add: connect_def connect_start_def numeral_3_eq_3 connect_attempt_def
      ws_onclose_def connect_catch_def onWSError_def onWSClose_def emit_def effect_def Let_def
      eval_nat_numeral)

text \<open>The freshly constructed loader, whose options give no retry count and so the
  default of 3, against a transport that always closes with code 1006.\<close>

theorem retry_bound_witness:
  "socket (sample_fresh 2 None) = None \<and> retries (retrySettings (sample_fresh 2 None)) = 3
   \<and> (\<forall>n. (\<lambda>n. Socket n [EvClose 1006]) n = Socket ((\<lambda>n. n) n) [EvClose ((\<lambda>n. 1006) n)])
   \<and> connect (sample_env 2) (\<lambda>n. Socket n [EvClose 1006]) (sample_fresh 2 None) =
     Returned ((sample_fresh 2 None)\<lparr>trace := trace (sample_fresh 2 None) @ [Debug ''stream_start'']
        @ concat (map (\<lambda>n. [NewSocket (url (requestParams (sample_fresh 2 None))),
                              Debug ''socket_closed'',
                              Emit (Error (ErrFailure (CloseEvent 1006)))]) [1, 2, 3, 4::nat])
        @ [Emit (Error ErrUndefined)]\<rparr>)"
proof -
  have h: "socket (sample_fresh 2 None) = None" "retries (retrySettings (sample_fresh 2 None)) = 3"
    by code_simp+
  have t: "\<forall>n. (\<lambda>n. Socket n [EvClose 1006]) n = Socket ((\<lambda>n. n) n) [EvClose ((\<lambda>n. 1006) n)]"
    by simp
  from retry_bound [OF h t, of "sample_env 2"] h show ?thesis by simp
qed

end
